theory Spec2Isabelle
  imports Complex_Main
begin

section \<open>The provider bits of TileStache (\<^verbatim>\<open>TileStache/Providers.py\<close>)\<close>

text \<open>
  A shallow embedding of \<^verbatim>\<open>Providers.py\<close>: the two built-in providers
  \<^verbatim>\<open>Proxy\<close> and \<^verbatim>\<open>Mapnik\<close>, and the two registry functions
  \<^verbatim>\<open>getProviderByName\<close> and \<^verbatim>\<open>loadProviderByClass\<close>.

  Python 2 byte strings are \<^typ>\<open>string\<close>, Python integers are \<^typ>\<open>int\<close>, and
  the projected coordinates, which the code only passes on, are \<^typ>\<open>real\<close>.
  Every \<^verbatim>\<open>raise\<close> is a value \<open>Inl e\<close> of the result type. What the code imports
  from elsewhere (ModestMaps, mapnik, urllib, the Geography module, the import
  machinery) is a field of the record \<open>env\<close>; each call that reaches outside the
  process is appended to a trace of events, in the order of the source.
\<close>

subsection \<open>Exceptions\<close>

datatype error =
    Exception string      \<comment> \<open>\<^verbatim>\<open>raise Exception(msg)\<close>, with its message\<close>
  | NameError string      \<comment> \<open>a global name that is not bound\<close>
  | IndexError            \<comment> \<open>\<^verbatim>\<open>xs[0]\<close> on an empty list\<close>
  | ValueError string     \<comment> \<open>with its message\<close>
  | ImportError string    \<comment> \<open>with the dotted name that could not be imported\<close>
  | AttributeError string \<comment> \<open>with the attribute that is absent\<close>
  | IOError string        \<comment> \<open>a failure inside a collaborator\<close>
  | RuntimeError string   \<comment> \<open>a failure inside the native engine\<close>

subsection \<open>String formatting\<close>

definition digit_char :: "nat \<Rightarrow> char" where
  "digit_char d = ''0123456789'' ! d"

function show_nat :: "nat \<Rightarrow> string" where
  "show_nat n = (if n < 10 then [digit_char n] else show_nat (n div 10) @ [digit_char (n mod 10)])"
  by pat_completeness auto
termination
  by (relation "measure id") auto

text \<open>The conversion \<^verbatim>\<open>%d\<close> of an integer.\<close>

definition fmt_d :: "int \<Rightarrow> string" where
  "fmt_d i = (if i < 0 then CHR ''-'' # show_nat (nat (- i)) else show_nat (nat i))"

definition dquote :: char where
  "dquote = CHR 0x22"

definition squote :: char where
  "squote = CHR 0x27"

subsection \<open>Images (PIL)\<close>

type_synonym pixel = nat

record image =
  im_mode :: string
  im_size :: "int \<times> int"
  im_rows :: "pixel list list"

definition wf_image :: "image \<Rightarrow> bool" where
  "wf_image im \<longleftrightarrow>
     0 \<le> fst (im_size im) \<and> 0 \<le> snd (im_size im) \<and>
     length (im_rows im) = nat (snd (im_size im)) \<and>
     list_all (\<lambda>r. length r = nat (fst (im_size im))) (im_rows im)"

text \<open>
  The pixel at column \<open>x\<close>, row \<open>y\<close>; outside the image a crop reads the
  fill value zero.
\<close>

definition getpixel :: "image \<Rightarrow> int \<times> int \<Rightarrow> pixel" where
  "getpixel im p =
     (case p of (x, y) \<Rightarrow>
        if 0 \<le> x \<and> x < fst (im_size im) \<and> 0 \<le> y \<and> y < snd (im_size im)
        then im_rows im ! nat y ! nat x else 0)"

text \<open>
  \<^verbatim>\<open>Image.crop((left, upper, right, lower))\<close>: the result has the size of the
  box (a box whose right or lower edge lies before its left or upper edge is
  empty) and holds the pixels of the source under the box.
\<close>

definition crop :: "image \<Rightarrow> int \<times> int \<times> int \<times> int \<Rightarrow> image" where
  "crop im box =
     (case box of (x0, y0, x1, y1) \<Rightarrow>
        let x1' = (if x1 < x0 then x0 else x1);
            y1' = (if y1 < y0 then y0 else y1)
        in \<lparr> im_mode = im_mode im,
             im_size = (x1' - x0, y1' - y0),
             im_rows = map (\<lambda>y. map (\<lambda>x. getpixel im (x, y)) [x0 .. x1' - 1]) [y0 .. y1' - 1] \<rparr>)"

text \<open>
  \<^verbatim>\<open>Image.fromstring('RGBA', (w, h), data)\<close> with the raw decoder: four bytes
  a pixel, rows from the top. Too few bytes raise \<^verbatim>\<open>ValueError\<close>; a negative
  size is refused.
\<close>

definition pack_rgba :: "string \<Rightarrow> pixel" where
  "pack_rgba bs = foldr (\<lambda>b acc. of_char b + 256 * acc) bs 0"

definition fromstring_RGBA :: "int \<times> int \<Rightarrow> string \<Rightarrow> error + image" where
  "fromstring_RGBA sz data =
     (case sz of (w, h) \<Rightarrow>
        if w < 0 \<or> h < 0 then Inl (ValueError ''bad image size'')
        else if length data < 4 * nat w * nat h then Inl (ValueError ''not enough image data'')
        else Inr \<lparr> im_mode = ''RGBA'',
                   im_size = (w, h),
                   im_rows = map (\<lambda>y. map (\<lambda>x. pack_rgba (take 4 (drop (4 * (y * nat w + x)) data)))
                                         [0 ..< nat w]) [0 ..< nat h] \<rparr>)"

subsection \<open>The registry\<close>

datatype provider_class = Mapnik | Proxy

text \<open>
  \<^verbatim>\<open>
  def getProviderByName(name):
      if name == 'mapnik':
          return Mapnik
      elif name == 'proxy':
          return Proxy
      raise Exception('Unknown provider name: "%s"' % name)
  \<close>
\<close>

definition getProviderByName :: "string \<Rightarrow> error + provider_class" where
  "getProviderByName name =
     (if name = ''mapnik'' then Inr Mapnik
      else if name = ''proxy'' then Inr Proxy
      else Inl (Exception (''Unknown provider name: '' @ [dquote] @ name @ [dquote])))"

subsection \<open>What the module imports\<close>

text \<open>\<^verbatim>\<open>ModestMaps.Core.Coordinate(row, column, zoom)\<close>.\<close>

datatype Coordinate = Coordinate (row: int) (column: int) (zoom: int)

text \<open>
  \<^verbatim>\<open>TemplatedMercatorProvider(url)\<close> holds the URL template. The map object
  that \<^verbatim>\<open>mapByExtent(provider, locA, locB, dimensions)\<close> builds is determined by
  its four arguments and is represented by them.
\<close>

datatype tmp = TemplatedMercatorProvider string

type_synonym location = "real \<times> real"

datatype mmap = mapByExtent tmp location location "int \<times> int"

text \<open>
  The state of a \<^verbatim>\<open>mapnik.Map\<close>: its raster size, the box last given to
  \<^verbatim>\<open>zoom_to_box\<close> and the style that \<^verbatim>\<open>load_map\<close> loaded into it.
\<close>

record mapnik_map =
  map_width :: int
  map_height :: int
  map_box :: "(real \<times> real \<times> real \<times> real) option"
  map_style :: "string option"

definition mapnik_Map :: "int \<Rightarrow> int \<Rightarrow> mapnik_map" where
  "mapnik_Map w h = \<lparr> map_width = w, map_height = h, map_box = None, map_style = None \<rparr>"

text \<open>Python objects that an attribute of a module can hold.\<close>

datatype pyobject = PyClass string | PyModule string | PyOther string

text \<open>
  The collaborators. \<open>SphericalMercator_srs\<close> is the constant
  \<^verbatim>\<open>Geography.SphericalMercator.srs\<close>; \<open>mapnik_imported\<close> says whether
  \<^verbatim>\<open>import mapnik\<close> at the top of the module succeeded; \<open>render\<close> stands for
  \<^verbatim>\<open>mapnik.Image(w, h)\<close>, \<^verbatim>\<open>mapnik.render\<close> and \<^verbatim>\<open>tostring\<close> together;
  \<open>sys_modules\<close> gives, for a dotted module name, the namespace of that module
  once it is imported, or \<open>None\<close> when it cannot be imported.
\<close>

record env =
  SphericalMercator_srs :: string
  projLocation :: "real \<times> real \<Rightarrow> location"
  getTileUrls :: "tmp \<Rightarrow> Coordinate \<Rightarrow> string list"
  urlopen_read :: "string \<Rightarrow> error + string"
  Image_open :: "string \<Rightarrow> error + image"
  convert_pixel :: "string \<Rightarrow> string \<Rightarrow> pixel \<Rightarrow> pixel"
  draw :: "mmap \<Rightarrow> error + image"
  mapnik_imported :: bool
  load_map :: "string \<Rightarrow> error + string"
  render :: "mapnik_map \<Rightarrow> int \<Rightarrow> int \<Rightarrow> error + string"
  sys_modules :: "string \<Rightarrow> (string \<rightharpoonup> pyobject) option"

text \<open>Calls that leave the process, in the order they are made.\<close>

datatype event =
    Urlopen string            \<comment> \<open>\<^verbatim>\<open>urlopen(url).read()\<close>\<close>
  | Draw mmap                 \<comment> \<open>\<^verbatim>\<open>mmap.draw()\<close>\<close>
  | Load_map string           \<comment> \<open>\<^verbatim>\<open>mapnik.load_map(m, mapfile)\<close>\<close>
  | Render mapnik_map int int \<comment> \<open>\<^verbatim>\<open>mapnik.render(m, mapnik.Image(w, h))\<close>, with the state of \<open>m\<close>\<close>

type_synonym trace = "event list"

text \<open>\<^verbatim>\<open>img.convert(mode)\<close>.\<close>

definition convert :: "env \<Rightarrow> string \<Rightarrow> image \<Rightarrow> image" where
  "convert env mode im =
     im \<lparr> im_mode := mode,
          im_rows := map (map (convert_pixel env (im_mode im) mode)) (im_rows im) \<rparr>"

subsection \<open>The proxy provider\<close>

record Proxy_provider =
  provider :: tmp

text \<open>
  \<^verbatim>\<open>
  def __init__(self, layer, url):
      self.provider = TemplatedMercatorProvider(url)
  \<close>
\<close>

definition Proxy_init :: "string \<Rightarrow> string \<Rightarrow> Proxy_provider" where
  "Proxy_init layer url = \<lparr> provider = TemplatedMercatorProvider url \<rparr>"

text \<open>
  \<^verbatim>\<open>
  def renderTile(self, width, height, srs, coord):
      if srs != Geography.SphericalMercator.srs:
          raise Exception('Projection doesn\'t match EPSG:900913: "%(srs)s"' % locals())
      if (width, height) != (256, 256):
          raise Exception("Image dimensions don't match expected tile size: %(width)dx%(height)d" % locals())
      url = self.provider.getTileUrls(coord)[0]
      img = PIL.Image.open(StringIO(urlopen(url).read())).convert('RGBA')
      return img
  \<close>
\<close>

definition Proxy_renderTile ::
  "env \<Rightarrow> Proxy_provider \<Rightarrow> int \<Rightarrow> int \<Rightarrow> string \<Rightarrow> Coordinate \<Rightarrow> trace \<Rightarrow> (error + image) \<times> trace" where
  "Proxy_renderTile env self width height srs coord tr =
     (if srs \<noteq> SphericalMercator_srs env then
        (Inl (Exception (''Projection doesn'' @ [squote] @ ''t match EPSG:900913: ''
                          @ [dquote] @ srs @ [dquote])), tr)
      else if (width, height) \<noteq> (256, 256) then
        (Inl (Exception (''Image dimensions don'' @ [squote] @ ''t match expected tile size: ''
                          @ fmt_d width @ ''x'' @ fmt_d height)), tr)
      else
        (case getTileUrls env (provider self) coord of
           [] \<Rightarrow> (Inl IndexError, tr)
         | url # _ \<Rightarrow>
             (case urlopen_read env url of
                Inl e \<Rightarrow> (Inl e, tr @ [Urlopen url])
              | Inr body \<Rightarrow>
                  (case Image_open env body of
                     Inl e \<Rightarrow> (Inl e, tr @ [Urlopen url])
                   | Inr img \<Rightarrow> (Inr (convert env ''RGBA'' img), tr @ [Urlopen url])))))"

text \<open>
  \<^verbatim>\<open>
  def renderArea(self, width, height, srs, xmin, ymin, xmax, ymax):
      if srs != Geography.SphericalMercator.srs:
          raise Exception('Bad SRS')
      dim = Point(width + 2, height + 2)
      proj = Geography.SphericalMercator()
      loc1 = proj.projLocation(Point(xmin, ymin))
      loc2 = proj.projLocation(Point(xmax, ymax))
      mmap = mapByExtent(self.provider, loc1, loc2, dim)
      img = mmap.draw().crop((1, 1, width + 1, height + 1))
      return img
  \<close>
\<close>

definition Proxy_renderArea ::
  "env \<Rightarrow> Proxy_provider \<Rightarrow> int \<Rightarrow> int \<Rightarrow> string \<Rightarrow> real \<Rightarrow> real \<Rightarrow> real \<Rightarrow> real \<Rightarrow> trace
     \<Rightarrow> (error + image) \<times> trace" where
  "Proxy_renderArea env self width height srs xmin ymin xmax ymax tr =
     (if srs \<noteq> SphericalMercator_srs env then (Inl (Exception ''Bad SRS''), tr)
      else
        let dim = (width + 2, height + 2);
            loc1 = projLocation env (xmin, ymin);
            loc2 = projLocation env (xmax, ymax);
            mmap = mapByExtent (provider self) loc1 loc2 dim
        in (case draw env mmap of
              Inl e \<Rightarrow> (Inl e, tr @ [Draw mmap])
            | Inr canvas \<Rightarrow> (Inr (crop canvas (1, 1, width + 1, height + 1)), tr @ [Draw mmap])))"

subsection \<open>The Mapnik provider\<close>

text \<open>
  The layer object is only stored; it is represented by its name.
  \<^verbatim>\<open>
  def __init__(self, layer, mapfile):
      self.layer = layer
      self.mapfile = str(mapfile)
      self.mapnik = None
  \<close>
\<close>

record Mapnik_provider =
  layer :: string
  mapfile :: string
  mapnik :: "mapnik_map option"

definition Mapnik_init :: "string \<Rightarrow> string \<Rightarrow> Mapnik_provider" where
  "Mapnik_init lay mf = \<lparr> layer = lay, mapfile = mf, mapnik = None \<rparr>"

text \<open>
  The second half of \<^verbatim>\<open>renderArea\<close>, run on the engine handle \<open>m\<close> that
  \<^verbatim>\<open>self.mapnik\<close> refers to:
  \<^verbatim>\<open>
      self.mapnik.width = width
      self.mapnik.height = height
      self.mapnik.zoom_to_box(mapnik.Envelope(xmin, ymin, xmax, ymax))
      img = mapnik.Image(width, height)
      mapnik.render(self.mapnik, img)
      img = PIL.Image.fromstring('RGBA', (width, height), img.tostring())
      return img
  \<close>
\<close>

definition Mapnik_render_handle ::
  "env \<Rightarrow> Mapnik_provider \<Rightarrow> mapnik_map \<Rightarrow> int \<Rightarrow> int \<Rightarrow> real \<Rightarrow> real \<Rightarrow> real \<Rightarrow> real \<Rightarrow> trace
     \<Rightarrow> (error + image) \<times> Mapnik_provider \<times> trace" where
  "Mapnik_render_handle env self m width height xmin ymin xmax ymax tr =
     (let m1 = m \<lparr> map_width := width \<rparr>;
          m2 = m1 \<lparr> map_height := height \<rparr>
      in if \<not> mapnik_imported env then (Inl (NameError ''mapnik''), self \<lparr> mapnik := Some m2 \<rparr>, tr)
         else
           let m3 = m2 \<lparr> map_box := Some (xmin, ymin, xmax, ymax) \<rparr>;
               self' = self \<lparr> mapnik := Some m3 \<rparr>;
               tr' = tr @ [Render m3 width height]
           in (case render env m3 width height of
                 Inl e \<Rightarrow> (Inl e, self', tr')
               | Inr data \<Rightarrow>
                   (case fromstring_RGBA (width, height) data of
                      Inl e \<Rightarrow> (Inl e, self', tr')
                    | Inr img \<Rightarrow> (Inr img, self', tr'))))"

text \<open>
  \<^verbatim>\<open>
  def renderArea(self, width, height, srs, xmin, ymin, xmax, ymax):
      if self.mapnik is None:
          self.mapnik = mapnik.Map(0, 0)
          mapnik.load_map(self.mapnik, self.mapfile)
      ...
  \<close>
  The handle is assigned before the style is loaded, so a \<^verbatim>\<open>load_map\<close> that
  raises leaves \<^verbatim>\<open>self.mapnik\<close> bound to the new, unstyled map.
\<close>

definition Mapnik_renderArea ::
  "env \<Rightarrow> Mapnik_provider \<Rightarrow> int \<Rightarrow> int \<Rightarrow> string \<Rightarrow> real \<Rightarrow> real \<Rightarrow> real \<Rightarrow> real \<Rightarrow> trace
     \<Rightarrow> (error + image) \<times> Mapnik_provider \<times> trace" where
  "Mapnik_renderArea env self width height srs xmin ymin xmax ymax tr =
     (case mapnik self of
        None \<Rightarrow>
          if \<not> mapnik_imported env then (Inl (NameError ''mapnik''), self, tr)
          else
            let m = mapnik_Map 0 0;
                self1 = self \<lparr> mapnik := Some m \<rparr>;
                tr1 = tr @ [Load_map (mapfile self1)]
            in (case load_map env (mapfile self1) of
                  Inl e \<Rightarrow> (Inl e, self1, tr1)
                | Inr sty \<Rightarrow>
                    Mapnik_render_handle env self1 (m \<lparr> map_style := Some sty \<rparr>)
                      width height xmin ymin xmax ymax tr1)
      | Some m \<Rightarrow> Mapnik_render_handle env self m width height xmin ymin xmax ymax tr)"

subsection \<open>Loading a provider by class path\<close>

text \<open>\<^verbatim>\<open>classpath.split('.')\<close> and \<^verbatim>\<open>'.'.join(segments)\<close>.\<close>

fun split_dot :: "string \<Rightarrow> string list" where
  "split_dot [] = [[]]"
| "split_dot (c # cs) =
     (if c = CHR ''.'' then [] # split_dot cs
      else (case split_dot cs of [] \<Rightarrow> [[c]] | w # ws \<Rightarrow> (c # w) # ws))"

fun join_dot :: "string list \<Rightarrow> string" where
  "join_dot [] = []"
| "join_dot [x] = x"
| "join_dot (x # y # ys) = x @ ''.'' @ join_dot (y # ys)"

text \<open>
  \<^verbatim>\<open>__import__(name)\<close> with no \<^verbatim>\<open>fromlist\<close>: the module \<open>name\<close> is imported, and
  what is returned is the top-level package, the module named by the segment
  before the first dot, not the module \<open>name\<close> itself. The empty name raises
  \<^verbatim>\<open>ValueError\<close>.
\<close>

definition py_import :: "env \<Rightarrow> string \<Rightarrow> error + (string \<rightharpoonup> pyobject)" where
  "py_import env name =
     (if name = [] then Inl (ValueError ''Empty module name'')
      else (case sys_modules env (hd (split_dot name)) of
              None \<Rightarrow> Inl (ImportError name)
            | Some toplevel \<Rightarrow>
                (case sys_modules env name of
                   None \<Rightarrow> Inl (ImportError name)
                 | Some _ \<Rightarrow> Inr toplevel)))"

text \<open>\<^verbatim>\<open>getattr(module, attr)\<close>.\<close>

definition py_getattr :: "(string \<rightharpoonup> pyobject) \<Rightarrow> string \<Rightarrow> error + pyobject" where
  "py_getattr module' attr =
     (case module' attr of None \<Rightarrow> Inl (AttributeError attr) | Some v \<Rightarrow> Inr v)"

text \<open>
  \<^verbatim>\<open>
  def loadProviderByClass(classpath):
      classpath = classpath.split('.')
      module = __import__( '.'.join(classpath[:-1]) )
      _class = getattr(module, classpath[-1])
      return _class
  \<close>
\<close>

definition loadProviderByClass :: "env \<Rightarrow> string \<Rightarrow> error + pyobject" where
  "loadProviderByClass env classpath =
     (let classpath' = split_dot classpath
      in (case py_import env (join_dot (butlast classpath')) of
            Inl e \<Rightarrow> Inl e
          | Inr module' \<Rightarrow> py_getattr module' (last classpath')))"

subsection \<open>Stub collaborators\<close>

text \<open>
  A set of stand-ins for the collaborators, on which the functions can be run:
  the tile URLs substitute the coordinate into the template's path, the
  mosaicking collaborator draws a canvas of the requested size whose border
  pixels are 9 and whose inner pixels are 5, the style file \<^verbatim>\<open>style.xml\<close>
  loads and any other does not, the engine fills its raster with zero bytes,
  and the package \<^verbatim>\<open>Module\<close> has a submodule \<^verbatim>\<open>Submodule\<close> that defines
  \<^verbatim>\<open>Classname\<close>.
\<close>

definition stub_canvas :: "int \<times> int \<Rightarrow> image" where
  "stub_canvas sz =
     (case sz of (w, h) \<Rightarrow>
        \<lparr> im_mode = ''RGBA'', im_size = (w, h),
          im_rows = map (\<lambda>y. map (\<lambda>x. if x = 0 \<or> y = 0 \<or> x = w - 1 \<or> y = h - 1 then 9 else 5)
                                [0 .. w - 1]) [0 .. h - 1] \<rparr>)"

definition stub_modules :: "string \<Rightarrow> (string \<rightharpoonup> pyobject) option" where
  "stub_modules name =
     (if name = ''Module'' then
        Some [''Submodule'' \<mapsto> PyModule ''Module.Submodule'']
      else if name = ''Module.Submodule'' then
        Some [''Classname'' \<mapsto> PyClass ''Module.Submodule.Classname'']
      else None)"

definition stub_env :: env where
  "stub_env =
     \<lparr> SphericalMercator_srs = ''+proj=merc'',
       projLocation = (\<lambda>p. p),
       getTileUrls = (\<lambda>t c. case t of TemplatedMercatorProvider u \<Rightarrow>
                        [u @ ''/'' @ fmt_d (zoom c) @ ''/'' @ fmt_d (column c) @ ''/'' @ fmt_d (row c)]),
       urlopen_read = (\<lambda>u. Inr u),
       Image_open = (\<lambda>b. Inr \<lparr> im_mode = ''RGB'', im_size = (1, 1), im_rows = [[7]] \<rparr>),
       convert_pixel = (\<lambda>_ _ p. p),
       draw = (\<lambda>m. case m of mapByExtent _ _ _ sz \<Rightarrow> Inr (stub_canvas sz)),
       mapnik_imported = True,
       load_map = (\<lambda>f. if f = ''style.xml'' then Inr ''<Map/>'' else Inl (RuntimeError f)),
       render = (\<lambda>m w h. Inr (replicate (nat (4 * w * h)) (CHR 0x00))),
       sys_modules = stub_modules \<rparr>"

section \<open>Properties\<close>

subsection \<open>The registry\<close>

text \<open>
  C3. \<open>getProviderByName\<close> returns the Mapnik class for exactly the name
  \<^verbatim>\<open>mapnik\<close> and the Proxy class for exactly the name \<^verbatim>\<open>proxy\<close>; for every
  other string, the empty one and those that differ by case or by surrounding
  blanks among them, it raises an exception whose message carries the name as
  it was given.
\<close>

theorem getProviderByName_exact:
  "(getProviderByName name = Inr Mapnik \<longleftrightarrow> name = ''mapnik'') \<and>
   (getProviderByName name = Inr Proxy \<longleftrightarrow> name = ''proxy'') \<and>
   (name \<noteq> ''mapnik'' \<and> name \<noteq> ''proxy'' \<longrightarrow>
      getProviderByName name =
        Inl (Exception (''Unknown provider name: '' @ [dquote] @ name @ [dquote])))"
  by (simp add: getProviderByName_def)

theorem getProviderByName_exact_witness:
  "getProviderByName ''mapnik'' = Inr Mapnik \<and>
   getProviderByName ''proxy'' = Inr Proxy \<and>
   getProviderByName '''' = Inl (Exception (''Unknown provider name: '' @ [dquote] @ [dquote])) \<and>
   getProviderByName ''Mapnik'' = Inl (Exception (''Unknown provider name: '' @ [dquote] @ ''Mapnik'' @ [dquote])) \<and>
   getProviderByName '' proxy'' = Inl (Exception (''Unknown provider name: '' @ [dquote] @ '' proxy'' @ [dquote])) \<and>
   getProviderByName ''proxy '' = Inl (Exception (''Unknown provider name: '' @ [dquote] @ ''proxy '' @ [dquote]))"
  using getProviderByName_exact [of "''mapnik''"] getProviderByName_exact [of "''proxy''"]
    getProviderByName_exact [of "''''"] getProviderByName_exact [of "''Mapnik''"]
    getProviderByName_exact [of "'' proxy''"] getProviderByName_exact [of "''proxy ''"]
  by simp

subsection \<open>The proxy provider: single tiles\<close>

text \<open>
  C4. \<open>Proxy.renderTile\<close> raises an exception, and fetches nothing, whenever
  the projection is not the spherical mercator one or the size is not
  256 by 256; a fetch is made only when both checks pass.
\<close>

theorem Proxy_renderTile_checks:
  "(srs \<noteq> SphericalMercator_srs env \<or> (width, height) \<noteq> (256, 256) \<longrightarrow>
      (\<exists>msg. Proxy_renderTile env self width height srs coord tr = (Inl (Exception msg), tr))) \<and>
   ((\<exists>url. Urlopen url \<in> set (snd (Proxy_renderTile env self width height srs coord []))) \<longrightarrow>
      srs = SphericalMercator_srs env \<and> (width, height) = (256, 256))"
  by (auto simp: Proxy_renderTile_def)

theorem Proxy_renderTile_checks_witness:
  "(\<exists>msg. Proxy_renderTile stub_env (Proxy_init ''osm'' ''http://tile'') 256 256 ''+proj=longlat''
            (Coordinate 0 0 0) [] = (Inl (Exception msg), [])) \<and>
   (\<exists>msg. Proxy_renderTile stub_env (Proxy_init ''osm'' ''http://tile'') 300 150 ''+proj=merc''
            (Coordinate 0 0 0) [] = (Inl (Exception msg), [])) \<and>
   (\<exists>url. Urlopen url \<in> set (snd (Proxy_renderTile stub_env (Proxy_init ''osm'' ''http://tile'') 256 256
            ''+proj=merc'' (Coordinate 0 0 0) []))) \<and>
   ''+proj=merc'' = SphericalMercator_srs stub_env"
proof -
  have a: "''+proj=longlat'' \<noteq> SphericalMercator_srs stub_env"
    by (simp add: stub_env_def)
  have b: "((300::int), (150::int)) \<noteq> (256, 256)" by simp
  have c: "\<exists>url. Urlopen url \<in> set (snd (Proxy_renderTile stub_env (Proxy_init ''osm'' ''http://tile'') 256 256
            ''+proj=merc'' (Coordinate 0 0 0) []))"
    by (simp add: Proxy_renderTile_def stub_env_def Proxy_init_def)
  show ?thesis
    using a b c
      Proxy_renderTile_checks [of "''+proj=longlat''" stub_env 256 256 "Proxy_init ''osm'' ''http://tile''" "Coordinate 0 0 0" "[]"]
      Proxy_renderTile_checks [of "''+proj=merc''" stub_env 300 150 "Proxy_init ''osm'' ''http://tile''" "Coordinate 0 0 0" "[]"]
      Proxy_renderTile_checks [of "''+proj=merc''" stub_env 256 256 "Proxy_init ''osm'' ''http://tile''" "Coordinate 0 0 0" "[]"]
    by blast
qed

text \<open>
  C9. In \<open>Proxy.renderTile\<close> the projection is checked before the size: when
  both are wrong, the exception raised is the one about the projection, with
  the offending \<open>srs\<close> in its message, and not the one about the image
  dimensions.
\<close>

theorem Proxy_renderTile_projection_first:
  assumes "srs \<noteq> SphericalMercator_srs env" and "(width, height) \<noteq> (256, 256)"
  shows "Proxy_renderTile env self width height srs coord tr =
           (Inl (Exception (''Projection doesn'' @ [squote] @ ''t match EPSG:900913: ''
                             @ [dquote] @ srs @ [dquote])), tr) \<and>
         fst (Proxy_renderTile env self width height srs coord tr) \<noteq>
           Inl (Exception (''Image dimensions don'' @ [squote] @ ''t match expected tile size: ''
                            @ fmt_d width @ ''x'' @ fmt_d height))"
  using assms by (simp add: Proxy_renderTile_def)

theorem Proxy_renderTile_projection_first_witness:
  "''+proj=longlat'' \<noteq> SphericalMercator_srs stub_env \<and> ((300::int), (150::int)) \<noteq> (256, 256) \<and>
   Proxy_renderTile stub_env (Proxy_init ''osm'' ''http://tile'') 300 150 ''+proj=longlat'' (Coordinate 0 0 0) [] =
     (Inl (Exception (''Projection doesn'' @ [squote] @ ''t match EPSG:900913: ''
                             @ [dquote] @ ''+proj=longlat'' @ [dquote])), [])"
proof -
  have a: "''+proj=longlat'' \<noteq> SphericalMercator_srs stub_env"
    by (simp add: stub_env_def)
  have b: "((300::int), (150::int)) \<noteq> (256, 256)" by simp
  show ?thesis
    using a b Proxy_renderTile_projection_first [OF a b, of "Proxy_init ''osm'' ''http://tile''" "Coordinate 0 0 0" "[]"]
    by simp
qed

text \<open>
  C8. A proxy provider built from a URL template fetches, in \<open>renderTile\<close>,
  exactly the first URL that the templated provider of that template gives
  for the coordinate (zoom 0 included), and nothing else.
\<close>

theorem Proxy_renderTile_fetches_template_url:
  assumes "srs = SphericalMercator_srs env" and "(width, height) = (256, 256)"
    and "getTileUrls env (TemplatedMercatorProvider template) coord = url # urls"
  shows "snd (Proxy_renderTile env (Proxy_init lay template) width height srs coord tr) = tr @ [Urlopen url]"
  using assms
  by (simp add: Proxy_renderTile_def Proxy_init_def split: sum.splits)

theorem Proxy_renderTile_fetches_template_url_witness:
  "getTileUrls stub_env (TemplatedMercatorProvider ''http://tile'') (Coordinate 0 0 0) = [''http://tile/0/0/0''] \<and>
   snd (Proxy_renderTile stub_env (Proxy_init ''osm'' ''http://tile'') 256 256 ''+proj=merc'' (Coordinate 0 0 0) [])
     = [Urlopen ''http://tile/0/0/0''] \<and>
   getTileUrls stub_env (TemplatedMercatorProvider ''http://tile'') (Coordinate 5 3 4) = [''http://tile/4/3/5''] \<and>
   snd (Proxy_renderTile stub_env (Proxy_init ''osm'' ''http://tile'') 256 256 ''+proj=merc'' (Coordinate 5 3 4) [])
     = [Urlopen ''http://tile/4/3/5'']"
proof -
  have s: "''+proj=merc'' = SphericalMercator_srs stub_env"
    by (simp add: stub_env_def)
  have d: "((256::int), (256::int)) = (256, 256)" by simp
  have u0: "getTileUrls stub_env (TemplatedMercatorProvider ''http://tile'') (Coordinate 0 0 0) = ''http://tile/0/0/0'' # []"
    by (simp add: stub_env_def fmt_d_def digit_char_def)
  have u1: "getTileUrls stub_env (TemplatedMercatorProvider ''http://tile'') (Coordinate 5 3 4) = ''http://tile/4/3/5'' # []"
    by (simp add: stub_env_def fmt_d_def digit_char_def)
  show ?thesis
    using u0 u1
      Proxy_renderTile_fetches_template_url [OF s d u0, of "''osm''" "[]"]
      Proxy_renderTile_fetches_template_url [OF s d u1, of "''osm''" "[]"]
    by simp
qed

subsection \<open>The proxy provider: areas\<close>

text \<open>
  C10. \<open>Proxy.renderArea\<close> validates the projection and nothing else. A
  wrong \<open>srs\<close> is refused with the exception \<^verbatim>\<open>Bad SRS\<close> before any
  collaborator is called. With the spherical mercator \<open>srs\<close> and any width and
  height, it goes on to the mosaicking collaborator with the inflated canvas
  size, and its result is the crop of the drawn canvas, or the collaborator's
  own failure; it raises no exception about the geometry. A size other than
  256 by 256, which \<open>renderArea\<close> accepts, is refused by \<open>renderTile\<close>.
\<close>

theorem Proxy_renderArea_any_size:
  "(srs \<noteq> SphericalMercator_srs env \<longrightarrow>
      Proxy_renderArea env self width height srs xmin ymin xmax ymax tr =
        (Inl (Exception ''Bad SRS''), tr)) \<and>
   (srs = SphericalMercator_srs env \<longrightarrow>
      snd (Proxy_renderArea env self width height srs xmin ymin xmax ymax tr) =
        tr @ [Draw (mapByExtent (provider self) (projLocation env (xmin, ymin))
                     (projLocation env (xmax, ymax)) (width + 2, height + 2))] \<and>
      (case draw env (mapByExtent (provider self) (projLocation env (xmin, ymin))
                     (projLocation env (xmax, ymax)) (width + 2, height + 2)) of
         Inl e \<Rightarrow> fst (Proxy_renderArea env self width height srs xmin ymin xmax ymax tr) = Inl e
       | Inr canvas \<Rightarrow> fst (Proxy_renderArea env self width height srs xmin ymin xmax ymax tr) =
           Inr (crop canvas (1, 1, width + 1, height + 1)))) \<and>
   (srs = SphericalMercator_srs env \<and> (width, height) \<noteq> (256, 256) \<longrightarrow>
      Proxy_renderTile env self width height srs coord tr =
        (Inl (Exception (''Image dimensions don'' @ [squote] @ ''t match expected tile size: ''
                          @ fmt_d width @ ''x'' @ fmt_d height)), tr))"
proof (intro conjI impI)
  assume "srs \<noteq> SphericalMercator_srs env"
  then show "Proxy_renderArea env self width height srs xmin ymin xmax ymax tr =
        (Inl (Exception ''Bad SRS''), tr)"
    by (simp add: Proxy_renderArea_def)
next
  assume "srs = SphericalMercator_srs env"
  then show "snd (Proxy_renderArea env self width height srs xmin ymin xmax ymax tr) =
        tr @ [Draw (mapByExtent (provider self) (projLocation env (xmin, ymin))
                     (projLocation env (xmax, ymax)) (width + 2, height + 2))]"
    by (simp add: Proxy_renderArea_def Let_def split: sum.splits)
next
  assume "srs = SphericalMercator_srs env"
  then show "case draw env (mapByExtent (provider self) (projLocation env (xmin, ymin))
                     (projLocation env (xmax, ymax)) (width + 2, height + 2)) of
         Inl e \<Rightarrow> fst (Proxy_renderArea env self width height srs xmin ymin xmax ymax tr) = Inl e
       | Inr canvas \<Rightarrow> fst (Proxy_renderArea env self width height srs xmin ymin xmax ymax tr) =
           Inr (crop canvas (1, 1, width + 1, height + 1))"
    by (simp add: Proxy_renderArea_def Let_def split: sum.splits)
next
  assume "srs = SphericalMercator_srs env \<and> (width, height) \<noteq> (256, 256)"
  then show "Proxy_renderTile env self width height srs coord tr =
        (Inl (Exception (''Image dimensions don'' @ [squote] @ ''t match expected tile size: ''
                          @ fmt_d width @ ''x'' @ fmt_d height)), tr)"
    by (simp add: Proxy_renderTile_def)
qed

theorem Proxy_renderArea_any_size_witness:
  "''+proj=merc'' = SphericalMercator_srs stub_env \<and>
   ''+proj=longlat'' \<noteq> SphericalMercator_srs stub_env \<and>
   ((3::int), (2::int)) \<noteq> (256, 256) \<and>
   Proxy_renderArea stub_env (Proxy_init ''osm'' ''http://tile'') 3 2 ''+proj=longlat'' 0 0 1 1 [] =
     (Inl (Exception ''Bad SRS''), []) \<and>
   (\<exists>msg. Proxy_renderTile stub_env (Proxy_init ''osm'' ''http://tile'') 3 2 ''+proj=merc'' (Coordinate 0 0 0) []
      = (Inl (Exception msg), [])) \<and>
   Proxy_renderArea stub_env (Proxy_init ''osm'' ''http://tile'') 3 2 ''+proj=merc'' 0 0 1 1 [] =
     (Inr \<lparr> im_mode = ''RGBA'', im_size = (3, 2), im_rows = [[5, 5, 5], [5, 5, 5]] \<rparr>,
      [Draw (mapByExtent (TemplatedMercatorProvider ''http://tile'') (0, 0) (1, 1) (5, 4))])"
proof -
  have s: "''+proj=merc'' = SphericalMercator_srs stub_env"
    by (simp add: stub_env_def)
  have n: "''+proj=longlat'' \<noteq> SphericalMercator_srs stub_env"
    by (simp add: stub_env_def)
  have d: "((3::int), (2::int)) \<noteq> (256, 256)" by simp
  have p: "provider (Proxy_init ''osm'' ''http://tile'') = TemplatedMercatorProvider ''http://tile''"
    by (simp add: Proxy_init_def)
  have pl: "projLocation stub_env = (\<lambda>p. p)" by (simp add: stub_env_def)
  have dr: "draw stub_env (mapByExtent (TemplatedMercatorProvider ''http://tile'') (0, 0) (1, 1) (5, 4)) = Inr (stub_canvas (5, 4))"
    by (simp add: stub_env_def)
  have cr: "crop (stub_canvas (5, 4)) (1, 1, 4, 3) = \<lparr> im_mode = ''RGBA'', im_size = (3, 2), im_rows = [[5, 5, 5], [5, 5, 5]] \<rparr>"
    by code_simp
  note good = Proxy_renderArea_any_size [of "''+proj=merc''" stub_env "Proxy_init ''osm'' ''http://tile''"
      3 2 0 0 1 1 "[]" "Coordinate 0 0 0"]
  note bad = Proxy_renderArea_any_size [of "''+proj=longlat''" stub_env "Proxy_init ''osm'' ''http://tile''"
      3 2 0 0 1 1 "[]" "Coordinate 0 0 0"]
  have refused: "Proxy_renderArea stub_env (Proxy_init ''osm'' ''http://tile'') 3 2 ''+proj=longlat'' 0 0 1 1 [] =
     (Inl (Exception ''Bad SRS''), [])"
    using bad n by blast
  have tile: "\<exists>msg. Proxy_renderTile stub_env (Proxy_init ''osm'' ''http://tile'') 3 2 ''+proj=merc'' (Coordinate 0 0 0) []
      = (Inl (Exception msg), [])"
    using good s d by blast
  have area: "Proxy_renderArea stub_env (Proxy_init ''osm'' ''http://tile'') 3 2 ''+proj=merc'' 0 0 1 1 [] =
     (Inr \<lparr> im_mode = ''RGBA'', im_size = (3, 2), im_rows = [[5, 5, 5], [5, 5, 5]] \<rparr>,
      [Draw (mapByExtent (TemplatedMercatorProvider ''http://tile'') (0, 0) (1, 1) (5, 4))])"
    using good s by (simp add: p pl dr cr prod_eq_iff)
  show ?thesis
    using s n d refused tile area by blast
qed

subsection \<open>Cropping\<close>

lemma crop_size: "0 \<le> w \<Longrightarrow> 0 \<le> h \<Longrightarrow> im_size (crop im (1, 1, w + 1, h + 1)) = (w, h)"
  by (simp add: crop_def Let_def)

lemma crop_mode: "im_mode (crop im box) = im_mode im"
  by (cases box) (simp add: crop_def Let_def)

lemma crop_wf: "wf_image (crop im box)"
  by (cases box) (auto simp: crop_def Let_def wf_image_def list_all_iff)

lemma inner_nth:
  assumes "length xs = n + 2" and "i < n"
  shows "butlast (tl xs) ! i = xs ! Suc i"
  using assms by (simp add: nth_butlast nth_tl)

lemma crop_rows_inner:
  assumes wf: "wf_image canvas" and sz: "im_size canvas = (w + 2, h + 2)"
    and w: "0 \<le> w" and h: "0 \<le> h"
  shows "im_rows (crop canvas (1, 1, w + 1, h + 1)) =
           map (\<lambda>r. butlast (tl r)) (butlast (tl (im_rows canvas)))"
proof (rule nth_equalityI)
  have lr: "length (im_rows canvas) = nat h + 2"
    using wf sz h by (simp add: wf_image_def nat_add_distrib)
  show len: "length (im_rows (crop canvas (1, 1, w + 1, h + 1))) =
        length (map (\<lambda>r. butlast (tl r)) (butlast (tl (im_rows canvas))))"
    using lr h by (simp add: crop_def Let_def)
  fix i assume "i < length (im_rows (crop canvas (1, 1, w + 1, h + 1)))"
  then have i: "i < nat h" using h by (simp add: crop_def Let_def)
  have row: "butlast (tl (im_rows canvas)) ! i = im_rows canvas ! Suc i"
    using lr i by (rule inner_nth)
  have rowlen: "length (im_rows canvas ! Suc i) = nat w + 2"
    using wf sz w lr i by (simp add: wf_image_def list_all_length nat_add_distrib)
  have "map (\<lambda>x. getpixel canvas (x, 1 + int i)) [1 .. w] = butlast (tl (im_rows canvas ! Suc i))"
  proof (rule nth_equalityI)
    show "length (map (\<lambda>x. getpixel canvas (x, 1 + int i)) [1 .. w]) =
          length (butlast (tl (im_rows canvas ! Suc i)))"
      using rowlen w by simp
    fix j assume "j < length (map (\<lambda>x. getpixel canvas (x, 1 + int i)) [1 .. w])"
    then have j: "j < nat w" using w by simp
    have "butlast (tl (im_rows canvas ! Suc i)) ! j = im_rows canvas ! Suc i ! Suc j"
      using rowlen j by (rule inner_nth)
    moreover have "getpixel canvas (1 + int j, 1 + int i) = im_rows canvas ! Suc i ! Suc j"
    proof -
      have "int j < w" and "int i < h" using i j by linarith+
      then show ?thesis using sz by (simp add: getpixel_def nat_add_distrib)
    qed
    ultimately show "map (\<lambda>x. getpixel canvas (x, 1 + int i)) [1 .. w] ! j =
          butlast (tl (im_rows canvas ! Suc i)) ! j"
      using j w by simp
  qed
  then show "im_rows (crop canvas (1, 1, w + 1, h + 1)) ! i =
        map (\<lambda>r. butlast (tl r)) (butlast (tl (im_rows canvas))) ! i"
    using i h w lr row by (simp add: crop_def Let_def)
qed

text \<open>
  C1. With a valid \<open>srs\<close>, \<open>Proxy.renderArea\<close> asks the mosaicking
  collaborator for a canvas of \<open>width + 2\<close> by \<open>height + 2\<close> pixels and returns
  the crop of the drawn canvas to the box \<open>(1, 1, width + 1, height + 1)\<close>.
  When the canvas has the size that was asked for, the result has the size
  \<open>width\<close> by \<open>height\<close> and its rows are the rows of the canvas without the first
  and the last row, each without its first and its last pixel.
\<close>

theorem Proxy_renderArea_inflate_crop:
  assumes "srs = SphericalMercator_srs env"
    and "draw env (mapByExtent (provider self) (projLocation env (xmin, ymin))
                     (projLocation env (xmax, ymax)) (width + 2, height + 2)) = Inr canvas"
  shows "Proxy_renderArea env self width height srs xmin ymin xmax ymax tr =
           (Inr (crop canvas (1, 1, width + 1, height + 1)),
            tr @ [Draw (mapByExtent (provider self) (projLocation env (xmin, ymin))
                          (projLocation env (xmax, ymax)) (width + 2, height + 2))]) \<and>
         (wf_image canvas \<and> im_size canvas = (width + 2, height + 2) \<and> 0 \<le> width \<and> 0 \<le> height \<longrightarrow>
            im_size (crop canvas (1, 1, width + 1, height + 1)) = (width, height) \<and>
            im_rows (crop canvas (1, 1, width + 1, height + 1)) =
              map (\<lambda>r. butlast (tl r)) (butlast (tl (im_rows canvas))))"
proof -
  have "Proxy_renderArea env self width height srs xmin ymin xmax ymax tr =
           (Inr (crop canvas (1, 1, width + 1, height + 1)),
            tr @ [Draw (mapByExtent (provider self) (projLocation env (xmin, ymin))
                          (projLocation env (xmax, ymax)) (width + 2, height + 2))])"
    using assms by (simp add: Proxy_renderArea_def Let_def)
  then show ?thesis
    by (simp add: crop_size crop_rows_inner)
qed

theorem Proxy_renderArea_inflate_crop_witness:
  "''+proj=merc'' = SphericalMercator_srs stub_env \<and>
   draw stub_env (mapByExtent (TemplatedMercatorProvider ''http://tile'') (0, 0) (1, 1) (5, 4)) =
     Inr \<lparr> im_mode = ''RGBA'', im_size = (5, 4),
           im_rows = [[9, 9, 9, 9, 9], [9, 5, 5, 5, 9], [9, 5, 5, 5, 9], [9, 9, 9, 9, 9]] \<rparr> \<and>
   Proxy_renderArea stub_env (Proxy_init ''osm'' ''http://tile'') 3 2 ''+proj=merc'' 0 0 1 1 [] =
     (Inr \<lparr> im_mode = ''RGBA'', im_size = (3, 2), im_rows = [[5, 5, 5], [5, 5, 5]] \<rparr>,
      [Draw (mapByExtent (TemplatedMercatorProvider ''http://tile'') (0, 0) (1, 1) (5, 4))])"
proof -
  let ?canvas = "\<lparr> im_mode = ''RGBA'', im_size = (5, 4),
           im_rows = [[9, 9, 9, 9, 9], [9, 5, 5, 5, 9], [9, 5, 5, 5, 9], [9, 9, 9, 9, 9]] \<rparr>"
  have s: "''+proj=merc'' = SphericalMercator_srs stub_env"
    by (simp add: stub_env_def)
  have c: "stub_canvas (5, 4) = ?canvas"
    by code_simp
  have d: "draw stub_env (mapByExtent (provider (Proxy_init ''osm'' ''http://tile''))
              (projLocation stub_env (0, 0)) (projLocation stub_env (1, 1)) (3 + 2, 2 + 2)) = Inr ?canvas"
    using c by (simp add: stub_env_def Proxy_init_def)
  have wf: "wf_image ?canvas"
    by (simp add: wf_image_def)
  note th = Proxy_renderArea_inflate_crop [OF s d, of "[]"]
  have sz: "im_size (crop ?canvas (1, 1, 3 + 1, 2 + 1)) = (3, 2)"
    and rows: "im_rows (crop ?canvas (1, 1, 3 + 1, 2 + 1)) = [[5, 5, 5], [5, 5, 5]]"
    using th wf by simp_all
  have mode: "im_mode (crop ?canvas (1, 1, 3 + 1, 2 + 1)) = ''RGBA''"
    by (simp add: crop_mode)
  have e: "crop ?canvas (1, 1, 3 + 1, 2 + 1) =
      \<lparr> im_mode = ''RGBA'', im_size = (3, 2), im_rows = [[5, 5, 5], [5, 5, 5]] \<rparr>"
    using sz rows mode by (intro image.equality) simp_all
  have pl: "projLocation stub_env = (\<lambda>p. p)"
    by (simp add: stub_env_def)
  have p: "provider (Proxy_init ''osm'' ''http://tile'') = TemplatedMercatorProvider ''http://tile''"
    by (simp add: Proxy_init_def)
  have run: "Proxy_renderArea stub_env (Proxy_init ''osm'' ''http://tile'') 3 2 ''+proj=merc'' 0 0 1 1 [] =
     (Inr (crop ?canvas (1, 1, 3 + 1, 2 + 1)),
      [Draw (mapByExtent (TemplatedMercatorProvider ''http://tile'') (0, 0) (1, 1) (5, 4))])"
    using th by (simp add: pl p)
  have d': "draw stub_env (mapByExtent (TemplatedMercatorProvider ''http://tile'') (0, 0) (1, 1) (5, 4)) = Inr ?canvas"
    using d by (simp add: pl p)
  show ?thesis
    using s d' run unfolding e by blast
qed

subsection \<open>Dimensions of the rendered area\<close>

lemma fromstring_RGBA_size:
  "fromstring_RGBA (w, h) data = Inr img \<Longrightarrow> im_size img = (w, h) \<and> wf_image img"
  by (auto simp: fromstring_RGBA_def wf_image_def list_all_iff split: if_splits)

lemma fromstring_RGBA_enough:
  "0 \<le> w \<Longrightarrow> 0 \<le> h \<Longrightarrow> 4 * nat w * nat h \<le> length data \<Longrightarrow> \<exists>img. fromstring_RGBA (w, h) data = Inr img"
  by (simp add: fromstring_RGBA_def)

lemma Mapnik_render_handle_size:
  "Mapnik_render_handle env self m w h xmin ymin xmax ymax tr = (Inr img, self', tr')
     \<Longrightarrow> im_size img = (w, h) \<and> wf_image img"
  by (auto simp: Mapnik_render_handle_def Let_def split: if_splits sum.splits
        dest: fromstring_RGBA_size)

lemma Mapnik_renderArea_size:
  "Mapnik_renderArea env self w h srs xmin ymin xmax ymax tr = (Inr img, self', tr')
     \<Longrightarrow> im_size img = (w, h) \<and> wf_image img"
  by (auto simp: Mapnik_renderArea_def Let_def split: option.splits if_splits sum.splits
        dest: Mapnik_render_handle_size)

lemma Proxy_renderArea_size:
  "0 \<le> w \<Longrightarrow> 0 \<le> h \<Longrightarrow> Proxy_renderArea env self w h srs xmin ymin xmax ymax tr = (Inr img, tr')
     \<Longrightarrow> im_size img = (w, h) \<and> wf_image img"
  by (auto simp: Proxy_renderArea_def Let_def crop_size crop_wf split: if_splits sum.splits)

lemma Mapnik_render_handle_returns:
  assumes "mapnik_imported env" and "0 \<le> w" and "0 \<le> h"
    and "\<forall>e. \<exists>data. render env e w h = Inr data \<and> 4 * nat w * nat h \<le> length data"
  shows "\<exists>img self' tr'. Mapnik_render_handle env self m w h xmin ymin xmax ymax tr = (Inr img, self', tr')"
proof -
  let ?m3 = "m \<lparr> map_width := w, map_height := h, map_box := Some (xmin, ymin, xmax, ymax) \<rparr>"
  obtain data where d: "render env ?m3 w h = Inr data" and l: "4 * nat w * nat h \<le> length data"
    using assms(4) by blast
  obtain img where "fromstring_RGBA (w, h) data = Inr img"
    using fromstring_RGBA_enough [OF assms(2,3) l] by blast
  then show ?thesis
    using assms(1) d by (simp add: Mapnik_render_handle_def Let_def)
qed

lemma Mapnik_renderArea_returns:
  assumes "mapnik_imported env" and "0 \<le> w" and "0 \<le> h"
    and "mapnik self = None \<longrightarrow> (\<exists>sty. load_map env (mapfile self) = Inr sty)"
    and "\<forall>e. \<exists>data. render env e w h = Inr data \<and> 4 * nat w * nat h \<le> length data"
  shows "\<exists>img self' tr'. Mapnik_renderArea env self w h srs xmin ymin xmax ymax tr = (Inr img, self', tr')"
proof (cases "mapnik self")
  case None
  then obtain sty where "load_map env (mapfile self) = Inr sty"
    using assms(4) by blast
  then show ?thesis
    using None assms(1) Mapnik_render_handle_returns [OF assms(1,2,3,5)]
    by (simp add: Mapnik_renderArea_def Let_def)
next
  case (Some m)
  then show ?thesis
    using Mapnik_render_handle_returns [OF assms(1,2,3,5)]
    by (simp add: Mapnik_renderArea_def)
qed

text \<open>
  C2. For positive \<open>width\<close> and \<open>height\<close>, an image that \<open>renderArea\<close> of
  either built-in provider returns has the size \<open>width\<close> by \<open>height\<close>, with
  pixel rows of that shape, and never the inflated size; and each provider
  does return an image when its collaborators succeed.
\<close>

theorem renderArea_dimensions:
  assumes "0 < width" and "0 < height"
  shows "(\<forall>img tr'. Proxy_renderArea env p width height srs xmin ymin xmax ymax tr = (Inr img, tr') \<longrightarrow>
            im_size img = (width, height) \<and> wf_image img \<and> im_size img \<noteq> (width + 2, height + 2)) \<and>
         (\<forall>img m' tr'. Mapnik_renderArea env m width height srs xmin ymin xmax ymax tr = (Inr img, m', tr') \<longrightarrow>
            im_size img = (width, height) \<and> wf_image img \<and> im_size img \<noteq> (width + 2, height + 2)) \<and>
         (srs = SphericalMercator_srs env \<and>
          (\<exists>canvas. draw env (mapByExtent (provider p) (projLocation env (xmin, ymin))
                       (projLocation env (xmax, ymax)) (width + 2, height + 2)) = Inr canvas) \<longrightarrow>
            (\<exists>img tr'. Proxy_renderArea env p width height srs xmin ymin xmax ymax tr = (Inr img, tr'))) \<and>
         (mapnik_imported env \<and>
          (mapnik m = None \<longrightarrow> (\<exists>sty. load_map env (mapfile m) = Inr sty)) \<and>
          (\<forall>e. \<exists>data. render env e width height = Inr data \<and> 4 * nat width * nat height \<le> length data) \<longrightarrow>
            (\<exists>img m' tr'. Mapnik_renderArea env m width height srs xmin ymin xmax ymax tr = (Inr img, m', tr')))"
proof (intro conjI allI impI)
  fix img tr'
  assume "Proxy_renderArea env p width height srs xmin ymin xmax ymax tr = (Inr img, tr')"
  then have "im_size img = (width, height) \<and> wf_image img"
    using assms by (intro Proxy_renderArea_size) simp_all
  then show "im_size img = (width, height)" and "wf_image img"
    and "im_size img \<noteq> (width + 2, height + 2)"
    by simp_all
next
  fix img m' tr'
  assume "Mapnik_renderArea env m width height srs xmin ymin xmax ymax tr = (Inr img, m', tr')"
  then have "im_size img = (width, height) \<and> wf_image img"
    by (rule Mapnik_renderArea_size)
  then show "im_size img = (width, height)" and "wf_image img"
    and "im_size img \<noteq> (width + 2, height + 2)"
    by simp_all
next
  assume "srs = SphericalMercator_srs env \<and>
          (\<exists>canvas. draw env (mapByExtent (provider p) (projLocation env (xmin, ymin))
                       (projLocation env (xmax, ymax)) (width + 2, height + 2)) = Inr canvas)"
  then show "\<exists>img tr'. Proxy_renderArea env p width height srs xmin ymin xmax ymax tr = (Inr img, tr')"
    by (auto simp: Proxy_renderArea_def Let_def)
next
  assume a: "mapnik_imported env \<and>
          (mapnik m = None \<longrightarrow> (\<exists>sty. load_map env (mapfile m) = Inr sty)) \<and>
          (\<forall>e. \<exists>data. render env e width height = Inr data \<and> 4 * nat width * nat height \<le> length data)"
  show "\<exists>img m' tr'. Mapnik_renderArea env m width height srs xmin ymin xmax ymax tr = (Inr img, m', tr')"
    using a assms by (intro Mapnik_renderArea_returns) simp_all
qed

theorem renderArea_dimensions_witness:
  "(0::int) < 3 \<and> (0::int) < 2 \<and>
   (\<exists>img tr'. Proxy_renderArea stub_env (Proxy_init ''osm'' ''http://tile'') 3 2 ''+proj=merc'' 0 0 1 1 []
        = (Inr img, tr') \<and> im_size img = (3, 2) \<and> wf_image img) \<and>
   (\<exists>img m' tr'. Mapnik_renderArea stub_env (Mapnik_init ''roads'' ''style.xml'') 3 2 ''+proj=merc'' 0 0 1 1 []
        = (Inr img, m', tr') \<and> im_size img = (3, 2) \<and> wf_image img)"
proof -
  have w: "(0::int) < 3" and h: "(0::int) < 2" by simp_all
  note th = renderArea_dimensions [OF w h, of stub_env "Proxy_init ''osm'' ''http://tile''"
      "''+proj=merc''" 0 0 1 1 "[]" "Mapnik_init ''roads'' ''style.xml''"]
  have s: "''+proj=merc'' = SphericalMercator_srs stub_env"
    by (simp add: stub_env_def)
  have d: "\<exists>canvas. draw stub_env (mapByExtent (provider (Proxy_init ''osm'' ''http://tile''))
              (projLocation stub_env (0, 0)) (projLocation stub_env (1, 1)) (3 + 2, 2 + 2)) = Inr canvas"
    by (simp add: stub_env_def)
  have mi: "mapnik_imported stub_env"
    by (simp add: stub_env_def)
  have lm: "\<exists>sty. load_map stub_env (mapfile (Mapnik_init ''roads'' ''style.xml'')) = Inr sty"
    by (simp add: stub_env_def Mapnik_init_def)
  have rd: "\<forall>e. \<exists>data. render stub_env e 3 2 = Inr data \<and> 4 * nat 3 * nat 2 \<le> length data"
    by (simp add: stub_env_def)
  from th s d obtain img tr' where
    1: "Proxy_renderArea stub_env (Proxy_init ''osm'' ''http://tile'') 3 2 ''+proj=merc'' 0 0 1 1 [] = (Inr img, tr')"
    by blast
  from th mi lm rd obtain img2 m' tr2 where
    2: "Mapnik_renderArea stub_env (Mapnik_init ''roads'' ''style.xml'') 3 2 ''+proj=merc'' 0 0 1 1 [] = (Inr img2, m', tr2)"
    by blast
  from th 1 have 3: "im_size img = (3, 2) \<and> wf_image img" by blast
  from th 2 have 4: "im_size img2 = (3, 2) \<and> wf_image img2" by blast
  show ?thesis using w h 1 2 3 4 by blast
qed

subsection \<open>The Mapnik provider\<close>

text \<open>
  C6. A Mapnik provider is built without an engine handle. The first
  \<open>renderArea\<close> builds the handle and loads the style file into it; every
  \<open>renderArea\<close>, the first one included, sets the raster size of the handle to
  \<open>width\<close> by \<open>height\<close> and its box to the rectangle it was given, and only then
  runs the rasterization pass, so the engine state recorded with the
  \<open>Render\<close> event has that size and that box. A later call loads nothing.
\<close>

theorem Mapnik_lazy_handle:
  "mapnik (Mapnik_init lay mf) = None \<and>
   (mapnik_imported env \<and> mapnik self = None \<and> load_map env (mapfile self) = Inr sty \<longrightarrow>
      snd (Mapnik_renderArea env self width height srs xmin ymin xmax ymax tr) =
        (self \<lparr> mapnik := Some \<lparr> map_width = width, map_height = height,
                                 map_box = Some (xmin, ymin, xmax, ymax), map_style = Some sty \<rparr> \<rparr>,
         tr @ [Load_map (mapfile self),
               Render \<lparr> map_width = width, map_height = height,
                        map_box = Some (xmin, ymin, xmax, ymax), map_style = Some sty \<rparr> width height])) \<and>
   (mapnik_imported env \<and> mapnik self = Some m0 \<longrightarrow>
      snd (Mapnik_renderArea env self width height srs xmin ymin xmax ymax tr) =
        (self \<lparr> mapnik := Some (m0 \<lparr> map_width := width, map_height := height,
                                    map_box := Some (xmin, ymin, xmax, ymax) \<rparr>) \<rparr>,
         tr @ [Render (m0 \<lparr> map_width := width, map_height := height,
                            map_box := Some (xmin, ymin, xmax, ymax) \<rparr>) width height]))"
  by (auto simp: Mapnik_init_def Mapnik_renderArea_def Mapnik_render_handle_def Let_def mapnik_Map_def
        split: sum.splits)


theorem Mapnik_lazy_handle_witness:
  "mapnik (Mapnik_init ''roads'' ''style.xml'') = None \<and>
   snd (Mapnik_renderArea stub_env (Mapnik_init ''roads'' ''style.xml'') 3 2 ''+proj=merc'' 0 0 1 1 []) =
     (\<lparr> layer = ''roads'', mapfile = ''style.xml'',
        mapnik = Some \<lparr> map_width = 3, map_height = 2, map_box = Some (0, 0, 1, 1),
                        map_style = Some ''<Map/>'' \<rparr> \<rparr>,
      [Load_map ''style.xml'',
       Render \<lparr> map_width = 3, map_height = 2, map_box = Some (0, 0, 1, 1),
                map_style = Some ''<Map/>'' \<rparr> 3 2]) \<and>
   snd (Mapnik_renderArea stub_env
          \<lparr> layer = ''roads'', mapfile = ''style.xml'',
            mapnik = Some \<lparr> map_width = 3, map_height = 2, map_box = Some (0, 0, 1, 1),
                            map_style = Some ''<Map/>'' \<rparr> \<rparr>
          2 1 ''+proj=merc'' 1 1 2 2 [Load_map ''style.xml'']) =
     (\<lparr> layer = ''roads'', mapfile = ''style.xml'',
        mapnik = Some \<lparr> map_width = 2, map_height = 1, map_box = Some (1, 1, 2, 2),
                        map_style = Some ''<Map/>'' \<rparr> \<rparr>,
      [Load_map ''style.xml'',
       Render \<lparr> map_width = 2, map_height = 1, map_box = Some (1, 1, 2, 2),
                map_style = Some ''<Map/>'' \<rparr> 2 1])"
proof -
  have mi: "mapnik_imported stub_env"
    by (simp add: stub_env_def)
  have n: "mapnik (Mapnik_init ''roads'' ''style.xml'') = None"
    by (simp add: Mapnik_init_def)
  have lm: "load_map stub_env (mapfile (Mapnik_init ''roads'' ''style.xml'')) = Inr ''<Map/>''"
    by (simp add: stub_env_def Mapnik_init_def)
  let ?self1 = "\<lparr> layer = ''roads'', mapfile = ''style.xml'',
            mapnik = Some \<lparr> map_width = 3, map_height = 2, map_box = Some (0, 0, 1, 1),
                            map_style = Some ''<Map/>'' \<rparr> \<rparr>"
  have sm: "mapnik ?self1 = Some \<lparr> map_width = 3, map_height = 2, map_box = Some (0, 0, 1, 1),
                            map_style = Some ''<Map/>'' \<rparr>"
    by simp
  show ?thesis
    using mi n lm sm
      Mapnik_lazy_handle [of "''roads''" "''style.xml''" stub_env "Mapnik_init ''roads'' ''style.xml''"
        "''<Map/>''" 3 2 "''+proj=merc''" 0 0 1 1 "[]"]
      Mapnik_lazy_handle [of "''roads''" "''style.xml''" stub_env ?self1 "''<Map/>''" 2 1 "''+proj=merc''" 1 1 2 2
        "[Load_map ''style.xml'']" "\<lparr> map_width = 3, map_height = 2, map_box = Some (0, 0, 1, 1),
                            map_style = Some ''<Map/>'' \<rparr>"]
    by (simp add: Mapnik_init_def)
qed

lemma Mapnik_load_failure_keeps_handle:
  assumes "mapnik_imported env" and "mapnik self = None" and "load_map env (mapfile self) = Inl e"
  shows "Mapnik_renderArea env self width height srs xmin ymin xmax ymax tr =
           (Inl e, self \<lparr> mapnik := Some (mapnik_Map 0 0) \<rparr>, tr @ [Load_map (mapfile self)])"
  using assms by (simp add: Mapnik_renderArea_def Let_def)

lemma Mapnik_handle_never_reloaded:
  assumes "mapnik self = Some m"
  shows "Mapnik_renderArea env self width height srs xmin ymin xmax ymax tr =
           Mapnik_render_handle env self m width height xmin ymin xmax ymax tr"
  using assms by (simp add: Mapnik_renderArea_def)

lemma pack_rgba_zero: "pack_rgba [CHR 0x00, CHR 0x00, CHR 0x00, CHR 0x00] = 0"
  by (simp add: pack_rgba_def)

lemma replicate_8: "replicate 8 (CHR 0x00) = [CHR 0x00, CHR 0x00, CHR 0x00, CHR 0x00, CHR 0x00, CHR 0x00, CHR 0x00, CHR 0x00]"
  by (simp add: numeral_eq_Suc)

lemma upt_0_2: "[0 ..< (2::nat)] = [0, 1]"
  by (simp add: upt_rec)

lemma fromstring_RGBA_zero_2_1: "fromstring_RGBA (2, 1) (replicate 8 (CHR 0x00)) =
      Inr \<lparr> im_mode = ''RGBA'', im_size = (2, 1), im_rows = [[0, 0]] \<rparr>"
  unfolding replicate_8 by (simp add: fromstring_RGBA_def upt_0_2 pack_rgba_zero)

text \<open>
  C7. A style file that fails to load should make the provider unusable for
  good. The code binds \<^verbatim>\<open>self.mapnik\<close> before it calls \<^verbatim>\<open>load_map\<close>: on the
  stub engine, with a style file that does not load, the first \<open>renderArea\<close>
  raises the error of \<^verbatim>\<open>load_map\<close> and leaves the unstyled handle behind, and
  the second \<open>renderArea\<close> on that provider loads nothing and returns an image
  rendered from the unstyled map.
\<close>

theorem Mapnik_style_failure_not_fatal:
  "Mapnik_renderArea stub_env (Mapnik_init ''roads'' ''missing.xml'') 2 1 ''+proj=merc'' 0 0 1 1 [] =
     (Inl (RuntimeError ''missing.xml''),
      \<lparr> layer = ''roads'', mapfile = ''missing.xml'',
        mapnik = Some \<lparr> map_width = 0, map_height = 0, map_box = None, map_style = None \<rparr> \<rparr>,
      [Load_map ''missing.xml'']) \<and>
   Mapnik_renderArea stub_env
       \<lparr> layer = ''roads'', mapfile = ''missing.xml'',
         mapnik = Some \<lparr> map_width = 0, map_height = 0, map_box = None, map_style = None \<rparr> \<rparr>
       2 1 ''+proj=merc'' 0 0 1 1 [Load_map ''missing.xml''] =
     (Inr \<lparr> im_mode = ''RGBA'', im_size = (2, 1), im_rows = [[0, 0]] \<rparr>,
      \<lparr> layer = ''roads'', mapfile = ''missing.xml'',
        mapnik = Some \<lparr> map_width = 2, map_height = 1, map_box = Some (0, 0, 1, 1), map_style = None \<rparr> \<rparr>,
      [Load_map ''missing.xml'',
       Render \<lparr> map_width = 2, map_height = 1, map_box = Some (0, 0, 1, 1), map_style = None \<rparr> 2 1])"
proof -
  have r: "render stub_env m 2 1 = Inr (replicate 8 (CHR 0x00))" for m
    by (simp add: stub_env_def)
  have l: "load_map stub_env ''missing.xml'' = Inl (RuntimeError ''missing.xml'')"
    by (simp add: stub_env_def)
  have mi: "mapnik_imported stub_env"
    by (simp add: stub_env_def)
  have first: "Mapnik_renderArea stub_env (Mapnik_init ''roads'' ''missing.xml'') 2 1 ''+proj=merc'' 0 0 1 1 [] =
     (Inl (RuntimeError ''missing.xml''),
      \<lparr> layer = ''roads'', mapfile = ''missing.xml'',
        mapnik = Some \<lparr> map_width = 0, map_height = 0, map_box = None, map_style = None \<rparr> \<rparr>,
      [Load_map ''missing.xml''])"
    by (simp add: Mapnik_renderArea_def Mapnik_init_def mapnik_Map_def Let_def l mi)
  have second: "Mapnik_renderArea stub_env
       \<lparr> layer = ''roads'', mapfile = ''missing.xml'',
         mapnik = Some \<lparr> map_width = 0, map_height = 0, map_box = None, map_style = None \<rparr> \<rparr>
       2 1 ''+proj=merc'' 0 0 1 1 [Load_map ''missing.xml''] =
     (Inr \<lparr> im_mode = ''RGBA'', im_size = (2, 1), im_rows = [[0, 0]] \<rparr>,
      \<lparr> layer = ''roads'', mapfile = ''missing.xml'',
        mapnik = Some \<lparr> map_width = 2, map_height = 1, map_box = Some (0, 0, 1, 1), map_style = None \<rparr> \<rparr>,
      [Load_map ''missing.xml'',
       Render \<lparr> map_width = 2, map_height = 1, map_box = Some (0, 0, 1, 1), map_style = None \<rparr> 2 1])"
    by (simp add: Mapnik_renderArea_def Mapnik_render_handle_def Let_def r mi fromstring_RGBA_zero_2_1)
  show ?thesis
    using first second by (rule conjI)
qed

subsection \<open>Loading a provider by class path\<close>

lemma split_dot_not_Nil: "split_dot s \<noteq> []"
  by (induction s) (auto split: list.splits)

lemma join_dot_Cons_char: "join_dot ((c # w) # ws) = c # join_dot (w # ws)"
  by (cases ws) simp_all

lemma join_dot_split_dot: "join_dot (split_dot s) = s"
proof (induction s)
  case Nil
  then show ?case by simp
next
  case (Cons c cs)
  obtain w ws where s: "split_dot cs = w # ws"
    using split_dot_not_Nil [of cs] by (cases "split_dot cs") auto
  show ?case
    using Cons s by (simp add: join_dot_Cons_char)
qed

lemma loadProviderByClass_toplevel:
  assumes "join_dot (butlast (split_dot classpath)) = name" and "name \<noteq> []"
    and "sys_modules env (hd (split_dot name)) = Some toplevel"
    and "sys_modules env name = Some ns"
  shows "loadProviderByClass env classpath = py_getattr toplevel (last (split_dot classpath))"
  using assms by (simp add: loadProviderByClass_def py_import_def Let_def)

text \<open>
  C5. \<open>loadProviderByClass\<close> should take the named type from the module that
  the segments before the last one name. For the class path
  \<^verbatim>\<open>Module.Submodule.Classname\<close>, where the module \<^verbatim>\<open>Module.Submodule\<close> can be
  imported and defines \<^verbatim>\<open>Classname\<close>, the code looks the name up in the
  top-level package \<^verbatim>\<open>Module\<close>, which \<^verbatim>\<open>__import__\<close> returns, and raises
  \<^verbatim>\<open>AttributeError\<close>.
\<close>

theorem loadProviderByClass_submodule_not_searched:
  "sys_modules stub_env ''Module.Submodule'' =
     Some [''Classname'' \<mapsto> PyClass ''Module.Submodule.Classname''] \<and>
   split_dot ''Module.Submodule.Classname'' = [''Module'', ''Submodule'', ''Classname''] \<and>
   loadProviderByClass stub_env ''Module.Submodule.Classname'' = Inl (AttributeError ''Classname'')"
  by (simp add: loadProviderByClass_def py_import_def py_getattr_def stub_env_def stub_modules_def)

end
